theory Spec2Isabelle
  imports Complex_Main "HOL-Library.AList"
begin

section \<open>Data model of the analytics page (src/src/pages/Analytics.tsx)\<close>

text \<open>
  Timestamps. The page receives \<^verbatim>\<open>timestamptz\<close> columns as non-empty ISO strings and
  only ever uses them through \<^verbatim>\<open>new Date(s)\<close>. An instant is modelled by the time
  value of that \<^verbatim>\<open>Date\<close>: milliseconds since 1970-01-01T00:00:00Z, an integer.
  A nullable column is an \<open>option\<close>; a non-empty string is truthy, so the checks
  \<^verbatim>\<open>if (!ticket.first_response_at)\<close> and \<^verbatim>\<open>filter(t => t.closed_at)\<close> test for
  \<open>None\<close>. Date strings that do not parse (an invalid \<^verbatim>\<open>Date\<close>) are outside the model.

  Numbers. TypeScript's \<^verbatim>\<open>number\<close> is idealised: counts are \<open>nat\<close>, minute counts
  are \<open>int\<close>, averages and percentages are exact rationals; a division whose result
  is not a finite number is made explicit where the page guards against it.
\<close>

type_synonym instant = int

record ticket_status_ref =
  name :: string

record profile_ref =
  full_name :: string

text \<open>\<^verbatim>\<open>interface TicketWithTimes\<close> (the field \<^verbatim>\<open>id\<close> is called \<open>ticket_id\<close> here).\<close>

record TicketWithTimes =
  ticket_id :: string
  title :: string
  created_at :: instant
  updated_at :: instant
  first_response_at :: "instant option"
  closed_at :: "instant option"
  assigned_to :: "string option"
  status_id :: "string option"
  priority :: "string option"
  ticket_statuses :: "ticket_status_ref option"
  profiles :: "profile_ref option"

text \<open>\<^verbatim>\<open>interface AnalystMetrics\<close>.\<close>

record AnalystMetrics =
  analyst_id :: string
  analyst_name :: string
  total_tickets :: nat
  avg_response_time :: rat
  avg_resolution_time :: rat
  resolved_tickets :: nat
  sla_response_compliance :: rat
  sla_resolution_compliance :: rat

text \<open>The second argument of \<^verbatim>\<open>getSlaTarget\<close> and \<^verbatim>\<open>isWithinSla\<close>:
  \<^verbatim>\<open>'response' | 'resolution'\<close>.\<close>

datatype sla_type = response | resolution

text \<open>\<^verbatim>\<open>AppRole\<close> of the authentication context.\<close>

datatype AppRole = Admin | Analyst | User

section \<open>Time arithmetic\<close>

text \<open>
  \<^verbatim>\<open>differenceInMinutes(dateLeft, dateRight)\<close> of date-fns: the difference of the two
  time values in milliseconds, divided by 60000 and rounded with the default rounding
  method \<^verbatim>\<open>Math.trunc\<close>, that is towards zero.
\<close>

definition differenceInMinutes :: "instant \<Rightarrow> instant \<Rightarrow> int" where
  "differenceInMinutes dateLeft dateRight =
     (let diff = dateLeft - dateRight
      in if diff < 0 then - ((- diff) div 60000) else diff div 60000)"

text \<open>
  \<^verbatim>\<open>d.setUTCHours(h, m, s, ms)\<close> on a valid date: the UTC day of the time value is kept
  (\<open>Day(t) = floor (t / 86400000)\<close>) and the time within the day is replaced.
\<close>

definition msPerDay :: int where
  "msPerDay = 86400000"

definition setUTCHours :: "int \<Rightarrow> int \<Rightarrow> int \<Rightarrow> int \<Rightarrow> instant \<Rightarrow> instant" where
  "setUTCHours h m s ms t =
     (t div msPerDay) * msPerDay + (((h * 60 + m) * 60 + s) * 1000 + ms)"

section \<open>SLA target table and per-ticket evaluation\<close>

text \<open>
  \<^verbatim>\<open>const SLA_TARGETS\<close> of Analytics.tsx, in minutes: one object per kind, each with the
  own keys \<^verbatim>\<open>urgent\<close>, \<^verbatim>\<open>high\<close>, \<^verbatim>\<open>medium\<close>, \<^verbatim>\<open>low\<close>. The own properties of
  an object are an association list.
\<close>

definition SLA_TARGETS :: "sla_type \<Rightarrow> (string \<times> int) list" where
  "SLA_TARGETS type =
     (case type of
        response \<Rightarrow> [(''urgent'', 30), (''high'', 60), (''medium'', 240), (''low'', 480)]
      | resolution \<Rightarrow> [(''urgent'', 240), (''high'', 480), (''medium'', 1440), (''low'', 2880)])"

text \<open>The same constant as NewTicket.tsx declares it, with the additional key
  \<^verbatim>\<open>critical\<close>.\<close>

definition SLA_TARGETS_NewTicket :: "sla_type \<Rightarrow> (string \<times> int) list" where
  "SLA_TARGETS_NewTicket type =
     (case type of
        response \<Rightarrow> [(''urgent'', 30), (''high'', 60), (''medium'', 240), (''low'', 480),
                     (''critical'', 30)]
      | resolution \<Rightarrow> [(''urgent'', 240), (''high'', 480), (''medium'', 1440), (''low'', 2880),
                       (''critical'', 240)])"

text \<open>
  \<^verbatim>\<open>x || y\<close> on a nullable string: \<^verbatim>\<open>null\<close> and the empty string are falsy.
\<close>

definition or_string :: "string option \<Rightarrow> string \<Rightarrow> string" where
  "or_string x y = (case x of None \<Rightarrow> y | Some s \<Rightarrow> if s = [] then y else s)"

text \<open>
  Both objects are object literals, so \<^verbatim>\<open>obj[p]\<close> also finds what they inherit from
  \<^verbatim>\<open>Object.prototype\<close>. A looked-up value is a number of the table, or the function
  or object inherited under one of the names below; \<open>None\<close> is \<^verbatim>\<open>undefined\<close>.
\<close>

datatype js_value = JsNumber int | JsInherited string

definition Object_prototype_keys :: "string list" where
  "Object_prototype_keys =
     [''constructor'', ''__proto__'', ''hasOwnProperty'', ''isPrototypeOf'',
      ''propertyIsEnumerable'', ''toLocaleString'', ''toString'', ''valueOf'',
      ''__defineGetter__'', ''__defineSetter__'', ''__lookupGetter__'', ''__lookupSetter__'']"

definition get_property :: "(string \<times> int) list \<Rightarrow> string \<Rightarrow> js_value option" where
  "get_property obj p =
     (case map_of obj p of
        Some v \<Rightarrow> Some (JsNumber v)
      | None \<Rightarrow> if p \<in> set Object_prototype_keys then Some (JsInherited p) else None)"

text \<open>\<^verbatim>\<open>x || y\<close> on a looked-up value: \<^verbatim>\<open>undefined\<close> and \<open>0\<close> are falsy, a function
  or object is truthy.\<close>

definition or_value :: "js_value option \<Rightarrow> js_value \<Rightarrow> js_value" where
  "or_value x y =
     (case x of
        None \<Rightarrow> y
      | Some (JsNumber v) \<Rightarrow> if v = 0 then y else JsNumber v
      | Some (JsInherited n) \<Rightarrow> JsInherited n)"

text \<open>\<^verbatim>\<open>n <= target\<close> for a number \<open>n\<close>: a function or object converts to
  \<^verbatim>\<open>NaN\<close>, and every comparison with \<^verbatim>\<open>NaN\<close> is false.\<close>

definition js_le :: "int \<Rightarrow> js_value \<Rightarrow> bool" where
  "js_le n target = (case target of JsNumber m \<Rightarrow> n \<le> m | JsInherited _ \<Rightarrow> False)"

text \<open>
  \<^verbatim>\<open>
  const p = (priority || 'medium');
  return SLA_TARGETS[type][p] || SLA_TARGETS[type].medium;
  \<close>
  The last operand is the value of the key \<^verbatim>\<open>medium\<close>, which both objects have.
\<close>

definition medium_target :: "sla_type \<Rightarrow> js_value" where
  "medium_target type =
     (case map_of (SLA_TARGETS type) ''medium'' of Some v \<Rightarrow> JsNumber v | None \<Rightarrow> JsNumber 0)"

definition getSlaTarget :: "string option \<Rightarrow> sla_type \<Rightarrow> js_value" where
  "getSlaTarget prio type =
     (let p = or_string prio ''medium''
      in or_value (get_property (SLA_TARGETS type) p) (medium_target type))"

text \<open>\<^verbatim>\<open>isWithinSla\<close>: \<open>None\<close> is the \<^verbatim>\<open>null\<close> result.\<close>

definition isWithinSla :: "TicketWithTimes \<Rightarrow> sla_type \<Rightarrow> bool option" where
  "isWithinSla ticket type =
     (let target = getSlaTarget (priority ticket) type
      in case type of
           response \<Rightarrow>
             (case first_response_at ticket of
                None \<Rightarrow> None
              | Some fr \<Rightarrow>
                  (let responseTime = differenceInMinutes fr (created_at ticket)
                   in Some (js_le responseTime target)))
         | resolution \<Rightarrow>
             (case closed_at ticket of
                None \<Rightarrow> None
              | Some cl \<Rightarrow>
                  (let resolutionTime = differenceInMinutes cl (created_at ticket)
                   in Some (js_le resolutionTime target))))"

text \<open>A filter callback \<^verbatim>\<open>t => isWithinSla(t, type)\<close> keeps the ticket when the result
  is truthy: \<^verbatim>\<open>true\<close>, not \<^verbatim>\<open>false\<close> and not \<^verbatim>\<open>null\<close>.\<close>

definition truthy_sla :: "bool option \<Rightarrow> bool" where
  "truthy_sla r = (case r of Some b \<Rightarrow> b | None \<Rightarrow> False)"

section \<open>Per-analyst aggregation: \<^verbatim>\<open>calculateAnalystMetrics\<close>\<close>

text \<open>
  \<^verbatim>\<open>metricsMap\<close> is a JavaScript \<^verbatim>\<open>Map\<close>, which iterates in insertion order:
  an association list with distinct keys, \<^verbatim>\<open>get\<close> is \<open>map_of\<close>, and \<^verbatim>\<open>set\<close> is
  \<open>AList.update\<close> (the value is replaced in place when the key is present, the pair is
  appended otherwise).
\<close>

type_synonym metrics_map = "(string \<times> AnalystMetrics) list"

text \<open>The object literal of lines 113-122, used when the analyst has no entry yet.\<close>

definition new_metrics :: "string \<Rightarrow> TicketWithTimes \<Rightarrow> AnalystMetrics" where
  "new_metrics a ticket =
     \<lparr> analyst_id = a,
       analyst_name = or_string (map_option full_name (profiles ticket)) ''Desconhecido'',
       total_tickets = 0,
       avg_response_time = 0,
       avg_resolution_time = 0,
       resolved_tickets = 0,
       sla_response_compliance = 0,
       sla_resolution_compliance = 0 \<rparr>"

text \<open>
  Lines 124-143: the updates of \<^verbatim>\<open>existing\<close> for one ticket. Each running mean is
  computed after its counter has been incremented.
\<close>

definition update_existing :: "TicketWithTimes \<Rightarrow> AnalystMetrics \<Rightarrow> AnalystMetrics" where
  "update_existing ticket existing =
     (let e1 = existing\<lparr> total_tickets := total_tickets existing + 1 \<rparr>;
          e2 = (case first_response_at ticket of
                  None \<Rightarrow> e1
                | Some fr \<Rightarrow>
                    (let responseTime = differenceInMinutes fr (created_at ticket)
                     in e1\<lparr> avg_response_time :=
                           (avg_response_time e1 * (of_nat (total_tickets e1) - 1)
                              + of_int responseTime) / of_nat (total_tickets e1) \<rparr>))
      in case closed_at ticket of
           None \<Rightarrow> e2
         | Some cl \<Rightarrow>
             (let e3 = e2\<lparr> resolved_tickets := resolved_tickets e2 + 1 \<rparr>;
                  resolutionTime = differenceInMinutes cl (created_at ticket)
              in e3\<lparr> avg_resolution_time :=
                    (avg_resolution_time e3 * (of_nat (resolved_tickets e3) - 1)
                       + of_int resolutionTime) / of_nat (resolved_tickets e3) \<rparr>))"

text \<open>The callback of \<^verbatim>\<open>ticketsData.forEach\<close>; \<^verbatim>\<open>!ticket.assigned_to\<close> holds for
  \<^verbatim>\<open>null\<close> and for the empty string.\<close>

definition forEach_body :: "TicketWithTimes \<Rightarrow> metrics_map \<Rightarrow> metrics_map" where
  "forEach_body ticket metricsMap =
     (case assigned_to ticket of
        None \<Rightarrow> metricsMap
      | Some a \<Rightarrow>
          if a = [] then metricsMap
          else (let existing = (case map_of metricsMap a of
                                  Some e \<Rightarrow> e
                                | None \<Rightarrow> new_metrics a ticket)
                in AList.update a (update_existing ticket existing) metricsMap))"

definition build_metricsMap :: "TicketWithTimes list \<Rightarrow> metrics_map" where
  "build_metricsMap ticketsData = fold forEach_body ticketsData []"

text \<open>\<^verbatim>\<open>(a / b) * 100\<close> guarded by \<^verbatim>\<open>b > 0\<close>, as both compliance computations
  write it.\<close>

definition compliance :: "nat \<Rightarrow> nat \<Rightarrow> rat" where
  "compliance num den = (if den > 0 then (of_nat num / of_nat den) * 100 else 0)"

text \<open>The callback of \<^verbatim>\<open>.map(analyst => ...)\<close>, lines 148-166.\<close>

definition analystTickets :: "TicketWithTimes list \<Rightarrow> string \<Rightarrow> TicketWithTimes list" where
  "analystTickets ticketsData a = filter (\<lambda>t. assigned_to t = Some a) ticketsData"

definition with_compliance :: "TicketWithTimes list \<Rightarrow> AnalystMetrics \<Rightarrow> AnalystMetrics" where
  "with_compliance ticketsData analyst =
     (let ats = analystTickets ticketsData (analyst_id analyst);
          ticketsWithResponse = filter (\<lambda>t. first_response_at t \<noteq> None) ats;
          ticketsWithinResponseSla =
            filter (\<lambda>t. truthy_sla (isWithinSla t response)) ticketsWithResponse;
          ticketsResolved = filter (\<lambda>t. closed_at t \<noteq> None) ats;
          ticketsWithinResolutionSla =
            filter (\<lambda>t. truthy_sla (isWithinSla t resolution)) ticketsResolved
      in analyst\<lparr> sla_response_compliance :=
                    compliance (length ticketsWithinResponseSla) (length ticketsWithResponse),
                  sla_resolution_compliance :=
                    compliance (length ticketsWithinResolutionSla) (length ticketsResolved) \<rparr>)"

text \<open>The list handed to \<^verbatim>\<open>setAnalystMetrics\<close>.\<close>

definition calculateAnalystMetrics :: "TicketWithTimes list \<Rightarrow> AnalystMetrics list" where
  "calculateAnalystMetrics ticketsData =
     map (with_compliance ticketsData) (map snd (build_metricsMap ticketsData))"

section \<open>Date window and component state: \<^verbatim>\<open>fetchTicketsWithMetrics\<close>\<close>

text \<open>
  The two state variables the function sets. \<^verbatim>\<open>dateRange.start\<close> and
  \<^verbatim>\<open>dateRange.end\<close> are given by the time values of \<^verbatim>\<open>new Date(dateRange.start)\<close>
  and \<^verbatim>\<open>new Date(dateRange.end)\<close>.
\<close>

record analytics_state =
  tickets :: "TicketWithTimes list"
  analystMetrics :: "AnalystMetrics list"

definition filteredTickets :: "instant \<Rightarrow> instant \<Rightarrow> TicketWithTimes list \<Rightarrow> TicketWithTimes list" where
  "filteredTickets dateRange_start dateRange_end allTicketsData =
     (let startDate = setUTCHours 0 0 0 0 dateRange_start;
          endDate = setUTCHours 23 59 59 999 dateRange_end
      in filter (\<lambda>t. let createdDate = created_at t
                     in createdDate \<ge> startDate \<and> createdDate \<le> endDate) allTicketsData)"

text \<open>
  The query result is \<open>None\<close> when the query failed or returned no data: the function
  then leaves both state variables as they were.
\<close>

definition fetchTicketsWithMetrics ::
  "instant \<Rightarrow> instant \<Rightarrow> TicketWithTimes list option \<Rightarrow> analytics_state \<Rightarrow> analytics_state" where
  "fetchTicketsWithMetrics dateRange_start dateRange_end queryResult st =
     (case queryResult of
        None \<Rightarrow> st
      | Some allTicketsData \<Rightarrow>
          (let ft = filteredTickets dateRange_start dateRange_end allTicketsData;
               assigned = filter (\<lambda>t. assigned_to t \<noteq> None) ft
           in \<lparr> tickets = ft, analystMetrics = calculateAnalystMetrics assigned \<rparr>))"

section \<open>Values derived on every render: role filter, \<^verbatim>\<open>slaStats\<close>, \<^verbatim>\<open>overallStats\<close>\<close>

text \<open>
  \<^verbatim>\<open>const assignedTickets = tickets.filter(...)\<close>, lines 260-273. \<open>profile_id\<close> is the
  value of \<^verbatim>\<open>profile?.id\<close>, \<open>None\<close> when there is no profile.
\<close>

definition assignedTickets ::
  "AppRole \<Rightarrow> string \<Rightarrow> string option \<Rightarrow> TicketWithTimes list \<Rightarrow> TicketWithTimes list" where
  "assignedTickets role selectedAnalyst profile_id ts =
     filter (\<lambda>t. case assigned_to t of
                   None \<Rightarrow> False
                 | Some a \<Rightarrow>
                     if a = [] then False
                     else if role = Admin
                       then (if selectedAnalyst \<noteq> ''all'' then a = selectedAnalyst else True)
                       else Some a = profile_id) ts"

record sla_stats =
  responseCompliance :: rat
  resolutionCompliance :: rat

definition slaStats :: "TicketWithTimes list \<Rightarrow> sla_stats" where
  "slaStats assigned =
     (let ticketsWithResponse = filter (\<lambda>t. first_response_at t \<noteq> None) assigned;
          ticketsWithinResponseSla =
            filter (\<lambda>t. truthy_sla (isWithinSla t response)) ticketsWithResponse;
          ticketsResolved = filter (\<lambda>t. closed_at t \<noteq> None) assigned;
          ticketsWithinResolutionSla =
            filter (\<lambda>t. truthy_sla (isWithinSla t resolution)) ticketsResolved
      in \<lparr> responseCompliance =
             compliance (length ticketsWithinResponseSla) (length ticketsWithResponse),
           resolutionCompliance =
             compliance (length ticketsWithinResolutionSla) (length ticketsResolved) \<rparr>)"

record overall_stats =
  totalTickets :: nat
  respondedTickets :: nat
  resolvedTickets :: nat
  avgResponseTime :: "rat option"
  avgResolutionTime :: "rat option"

text \<open>\<^verbatim>\<open>n || 1\<close> on a count.\<close>

definition or_one :: "nat \<Rightarrow> nat" where
  "or_one n = (if n = 0 then 1 else n)"

text \<open>\<^verbatim>\<open>a / b\<close> on numbers: \<open>None\<close> stands for the results that are not finite
  numbers, \<^verbatim>\<open>NaN\<close> for \<open>0 / 0\<close> and an infinity for any other \<open>a / 0\<close>.\<close>

definition js_div :: "rat \<Rightarrow> rat \<Rightarrow> rat option" where
  "js_div a b = (if b = 0 then None else Some (a / b))"

definition overallStats :: "TicketWithTimes list \<Rightarrow> overall_stats" where
  "overallStats assigned =
     \<lparr> totalTickets = length assigned,
       respondedTickets = length (filter (\<lambda>t. first_response_at t \<noteq> None) assigned),
       resolvedTickets = length (filter (\<lambda>t. closed_at t \<noteq> None) assigned),
       avgResponseTime =
         js_div
           (of_int (foldl (\<lambda>acc t. case first_response_at t of
                                     Some fr \<Rightarrow> acc + differenceInMinutes fr (created_at t)
                                   | None \<Rightarrow> acc) 0 assigned))
           (of_nat (or_one (length (filter (\<lambda>t. first_response_at t \<noteq> None) assigned)))),
       avgResolutionTime =
         js_div
           (of_int (foldl (\<lambda>acc t. case closed_at t of
                                     Some cl \<Rightarrow> acc + differenceInMinutes cl (created_at t)
                                   | None \<Rightarrow> acc) 0 assigned))
           (of_nat (or_one (length (filter (\<lambda>t. closed_at t \<noteq> None) assigned)))) \<rparr>"

text \<open>
  What one render shows for a caller: the role-filtered statistics and the per-analyst
  cards, which are drawn from the state variable \<^verbatim>\<open>analystMetrics\<close> as it is
  (\<^verbatim>\<open>analystMetrics.map(...)\<close>, line 610).
\<close>

record analytics_view =
  overall :: overall_stats
  sla :: sla_stats
  perAnalyst :: "AnalystMetrics list"

definition render :: "AppRole \<Rightarrow> string \<Rightarrow> string option \<Rightarrow> analytics_state \<Rightarrow> analytics_view" where
  "render role selectedAnalyst profile_id st =
     (let assigned = assignedTickets role selectedAnalyst profile_id (tickets st)
      in \<lparr> overall = overallStats assigned,
           sla = slaStats assigned,
           perAnalyst = analystMetrics st \<rparr>)"

section \<open>Reference definitions, following the specification's wording\<close>

text \<open>"Normalized to 00:00:00.000 UTC of that calendar day": the last instant at or before
  \<open>t\<close> that is a whole number of days after the epoch; "23:59:59.999 UTC of that
  calendar day": the last millisecond of the same day.\<close>

definition utc_day_start :: "instant \<Rightarrow> instant" where
  "utc_day_start t = t - t mod msPerDay"

definition utc_day_end :: "instant \<Rightarrow> instant" where
  "utc_day_end t = utc_day_start t + (msPerDay - 1)"

text \<open>
  "\<open>newMean = (oldMean*(n-1) + sample)/n\<close> using the overall per-analyst ticket index
  \<open>n\<close>": \<open>n\<close> is the 1-based position of the head of the list among the analyst's
  tickets; it advances on every ticket, and the mean changes only on a ticket with a
  first response.
\<close>

fun mean_by_position :: "rat \<Rightarrow> nat \<Rightarrow> TicketWithTimes list \<Rightarrow> rat" where
  "mean_by_position oldMean n [] = oldMean"
| "mean_by_position oldMean n (t # ts) =
     mean_by_position
       (case first_response_at t of
          None \<Rightarrow> oldMean
        | Some fr \<Rightarrow>
            (oldMean * (of_nat n - 1) + of_int (differenceInMinutes fr (created_at t))) / of_nat n)
       (n + 1) ts"

text \<open>
  "Accumulated the same way against \<open>resolved_tickets\<close> as denominator": \<open>k\<close> is the
  number of closed tickets seen so far, and only a closed ticket advances it.
\<close>

fun mean_by_resolved_count :: "rat \<Rightarrow> nat \<Rightarrow> TicketWithTimes list \<Rightarrow> rat" where
  "mean_by_resolved_count oldMean k [] = oldMean"
| "mean_by_resolved_count oldMean k (t # ts) =
     (case closed_at t of
        None \<Rightarrow> mean_by_resolved_count oldMean k ts
      | Some cl \<Rightarrow>
          mean_by_resolved_count
            ((oldMean * (of_nat (k + 1) - 1) + of_int (differenceInMinutes cl (created_at t)))
               / of_nat (k + 1))
            (k + 1) ts)"

text \<open>"The date-filtered tickets with non-null \<open>assigned_to\<close>, further restricted to the
  selected analyst's tickets when the analyst filter is not the sentinel \<open>all\<close>."\<close>

definition admin_ticket_set :: "string \<Rightarrow> TicketWithTimes list \<Rightarrow> TicketWithTimes list" where
  "admin_ticket_set selectedAnalyst ts =
     filter (\<lambda>t. assigned_to t \<noteq> None
                 \<and> (selectedAnalyst \<noteq> ''all'' \<longrightarrow> assigned_to t = Some selectedAnalyst)) ts"



section \<open>Concrete tickets\<close>

text \<open>A ticket with the given creation instant, first response, closure, assignee and
  priority; the fields the page does not compute with are fixed.\<close>

definition mk_ticket ::
  "string \<Rightarrow> instant \<Rightarrow> instant option \<Rightarrow> instant option \<Rightarrow> string option \<Rightarrow> string option
     \<Rightarrow> TicketWithTimes" where
  "mk_ticket i c fr cl a p =
     \<lparr> ticket_id = i, title = ''ticket'', created_at = c, updated_at = c,
       first_response_at = fr, closed_at = cl, assigned_to = a, status_id = None,
       priority = p, ticket_statuses = None, profiles = None \<rparr>"

text \<open>Scenario B of the specification: created 2024-01-01T00:00:00Z, priority
  \<^verbatim>\<open>critical\<close>, first response at 01:00:00Z.\<close>

definition scenario_B :: TicketWithTimes where
  "scenario_B =
     mk_ticket ''B'' 1704067200000 (Some 1704070800000) None (Some ''X'') (Some ''critical'')"

text \<open>2024-03-01T00:00:00.000Z and 2024-03-01T23:59:59.999Z (scenario E).\<close>

definition march_1_start :: instant where
  "march_1_start = 1709251200000"

definition march_1_end :: instant where
  "march_1_end = 1709337599999"

definition empty_state :: analytics_state where
  "empty_state = \<lparr> tickets = [], analystMetrics = [] \<rparr>"

definition jan_1 :: instant where
  "jan_1 = 1704067200000"

text \<open>Two tickets of analyst \<open>X\<close>, created 2024-01-01T00:00:00Z: one without response or
  closure, one answered after 60 minutes and closed after 120 (scenario C of the
  specification); a ticket of analyst \<open>Y\<close>; a ticket nobody is assigned to; a ticket of
  \<open>X\<close> whose first response and closure are dated 120 and 60 minutes before its
  creation.\<close>

definition unanswered_ticket :: TicketWithTimes where
  "unanswered_ticket = mk_ticket ''1'' 1704067200000 None None (Some ''X'') (Some ''high'')"

definition answered_ticket :: TicketWithTimes where
  "answered_ticket =
     mk_ticket ''2'' 1704067200000 (Some 1704070800000) (Some 1704074400000) (Some ''X'')
       (Some ''high'')"

definition quirk_tickets :: "TicketWithTimes list" where
  "quirk_tickets = [unanswered_ticket, answered_ticket]"

definition other_analyst_ticket :: TicketWithTimes where
  "other_analyst_ticket = mk_ticket ''3'' 1704067200000 None None (Some ''Y'') (Some ''low'')"

definition unassigned_ticket :: TicketWithTimes where
  "unassigned_ticket = mk_ticket ''4'' 1704067200000 None None None (Some ''low'')"


section \<open>Auxiliary facts\<close>

lemma setUTCHours_start: "setUTCHours 0 0 0 0 t = utc_day_start t"
  by (simp add: setUTCHours_def utc_day_start_def minus_mod_eq_div_mult [symmetric])

lemma setUTCHours_end: "setUTCHours 23 59 59 999 t = utc_day_end t"
  by (simp add: setUTCHours_def utc_day_end_def utc_day_start_def msPerDay_def
      minus_mod_eq_div_mult [symmetric])

lemma update_existing_fields:
  "analyst_id (update_existing t ex) = analyst_id ex"
  "analyst_name (update_existing t ex) = analyst_name ex"
  "total_tickets (update_existing t ex) = total_tickets ex + 1"
  "resolved_tickets (update_existing t ex) =
     resolved_tickets ex + (if closed_at t = None then 0 else 1)"
  "sla_response_compliance (update_existing t ex) = sla_response_compliance ex"
  "sla_resolution_compliance (update_existing t ex) = sla_resolution_compliance ex"
  by (simp_all add: update_existing_def Let_def split: option.splits)

lemma update_existing_avg_response:
  "avg_response_time (update_existing t ex) =
     (case first_response_at t of
        None \<Rightarrow> avg_response_time ex
      | Some fr \<Rightarrow>
          (avg_response_time ex * (of_nat (total_tickets ex + 1) - 1)
             + of_int (differenceInMinutes fr (created_at t))) / of_nat (total_tickets ex + 1))"
  by (simp add: update_existing_def Let_def split: option.splits)

lemma update_existing_avg_resolution:
  "avg_resolution_time (update_existing t ex) =
     (case closed_at t of
        None \<Rightarrow> avg_resolution_time ex
      | Some cl \<Rightarrow>
          (avg_resolution_time ex * (of_nat (resolved_tickets ex + 1) - 1)
             + of_int (differenceInMinutes cl (created_at t))) / of_nat (resolved_tickets ex + 1))"
  by (simp add: update_existing_def Let_def split: option.splits)

lemma fold_update_existing_fields:
  "analyst_id (fold update_existing g ex) = analyst_id ex"
  "analyst_name (fold update_existing g ex) = analyst_name ex"
  "total_tickets (fold update_existing g ex) = total_tickets ex + length g"
  "resolved_tickets (fold update_existing g ex) =
     resolved_tickets ex + length (filter (\<lambda>t. closed_at t \<noteq> None) g)"
  by (induction g arbitrary: ex; simp add: update_existing_fields)+

lemma fold_update_existing_avg_response:
  "avg_response_time (fold update_existing g ex) =
     mean_by_position (avg_response_time ex) (total_tickets ex + 1) g"
  by (induction g arbitrary: ex)
     (simp_all add: update_existing_fields update_existing_avg_response split: option.splits)

lemma fold_update_existing_avg_resolution:
  "avg_resolution_time (fold update_existing g ex) =
     mean_by_resolved_count (avg_resolution_time ex) (resolved_tickets ex) g"
  by (induction g arbitrary: ex)
     (simp_all add: update_existing_fields update_existing_avg_resolution split: option.splits)

lemma forEach_body_other:
  "assigned_to t \<noteq> Some a \<Longrightarrow> map_of (forEach_body t m) a = map_of m a"
  by (auto simp add: forEach_body_def Let_def update_conv' split: option.splits)

lemma forEach_body_same:
  "assigned_to t = Some a \<Longrightarrow> a \<noteq> [] \<Longrightarrow>
   map_of (forEach_body t m) a =
     Some (update_existing t (case map_of m a of Some e \<Rightarrow> e | None \<Rightarrow> new_metrics a t))"
  by (simp add: forEach_body_def Let_def update_conv')

lemma map_of_fold_forEach_body:
  "a \<noteq> [] \<Longrightarrow>
   map_of (fold forEach_body ts m) a =
     (case analystTickets ts a of
        [] \<Rightarrow> map_of m a
      | t0 # rest \<Rightarrow>
          Some (fold update_existing (t0 # rest)
                  (case map_of m a of Some e \<Rightarrow> e | None \<Rightarrow> new_metrics a t0)))"
proof (induction ts arbitrary: m)
  case Nil
  then show ?case by (simp add: analystTickets_def)
next
  case (Cons t ts)
  show ?case
  proof (cases "assigned_to t = Some a")
    case True
    have g: "analystTickets (t # ts) a = t # analystTickets ts a"
      using True by (simp add: analystTickets_def)
    show ?thesis
      using Cons.prems True
      by (simp add: g Cons.IH [OF Cons.prems] forEach_body_same split: list.splits)
  next
    case False
    have g: "analystTickets (t # ts) a = analystTickets ts a"
      using False by (simp add: analystTickets_def)
    show ?thesis
      using False
      by (simp add: g Cons.IH [OF Cons.prems] forEach_body_other split: list.splits)
  qed
qed

lemma forEach_body_keys:
  "fst ` set (forEach_body t m) =
     fst ` set m \<union> {a. assigned_to t = Some a \<and> a \<noteq> []}"
  by (auto simp add: forEach_body_def Let_def dom_update split: option.splits)

lemma fold_forEach_body_keys:
  "fst ` set (fold forEach_body ts m) =
     fst ` set m \<union> {a. a \<noteq> [] \<and> (\<exists>t \<in> set ts. assigned_to t = Some a)}"
  by (induction ts arbitrary: m) (auto simp add: forEach_body_keys)

lemma forEach_body_distinct:
  "distinct (map fst m) \<Longrightarrow> distinct (map fst (forEach_body t m))"
  by (simp add: forEach_body_def Let_def distinct_update split: option.splits)

lemma fold_forEach_body_distinct:
  "distinct (map fst m) \<Longrightarrow> distinct (map fst (fold forEach_body ts m))"
  by (induction ts arbitrary: m) (simp_all add: forEach_body_distinct)

lemma build_metricsMap_entry:
  assumes "(k, v) \<in> set (build_metricsMap ts)"
  shows "k \<noteq> []" and "analystTickets ts k \<noteq> []"
    and "v = fold update_existing (analystTickets ts k)
               (new_metrics k (hd (analystTickets ts k)))"
proof -
  have "k \<in> fst ` set (build_metricsMap ts)"
    using assms by force
  then have k: "k \<noteq> []" and ex: "\<exists>t \<in> set ts. assigned_to t = Some k"
    by (auto simp add: build_metricsMap_def fold_forEach_body_keys)
  show "k \<noteq> []" by (rule k)
  from ex show ne: "analystTickets ts k \<noteq> []"
    by (auto simp add: analystTickets_def filter_empty_conv)
  have "distinct (map fst (build_metricsMap ts))"
    by (simp add: build_metricsMap_def fold_forEach_body_distinct)
  then have "map_of (build_metricsMap ts) k = Some v"
    using assms by simp
  then show "v = fold update_existing (analystTickets ts k)
               (new_metrics k (hd (analystTickets ts k)))"
    using ne by (simp add: build_metricsMap_def map_of_fold_forEach_body [OF k] split: list.splits)
qed

lemma with_compliance_fields:
  "analyst_id (with_compliance ts a) = analyst_id a"
  "analyst_name (with_compliance ts a) = analyst_name a"
  "total_tickets (with_compliance ts a) = total_tickets a"
  "resolved_tickets (with_compliance ts a) = resolved_tickets a"
  "avg_response_time (with_compliance ts a) = avg_response_time a"
  "avg_resolution_time (with_compliance ts a) = avg_resolution_time a"
  by (simp_all add: with_compliance_def Let_def)

lemma with_compliance_response:
  "sla_response_compliance (with_compliance ts a) =
     compliance
       (length (filter (\<lambda>t. truthy_sla (isWithinSla t response))
                  (filter (\<lambda>t. first_response_at t \<noteq> None) (analystTickets ts (analyst_id a)))))
       (length (filter (\<lambda>t. first_response_at t \<noteq> None) (analystTickets ts (analyst_id a))))"
  by (simp add: with_compliance_def Let_def)

lemma with_compliance_resolution:
  "sla_resolution_compliance (with_compliance ts a) =
     compliance
       (length (filter (\<lambda>t. truthy_sla (isWithinSla t resolution))
                  (filter (\<lambda>t. closed_at t \<noteq> None) (analystTickets ts (analyst_id a)))))
       (length (filter (\<lambda>t. closed_at t \<noteq> None) (analystTickets ts (analyst_id a))))"
  by (simp add: with_compliance_def Let_def)

lemma new_metrics_fields:
  "analyst_id (new_metrics a t) = a"
  "total_tickets (new_metrics a t) = 0"
  "resolved_tickets (new_metrics a t) = 0"
  "avg_response_time (new_metrics a t) = 0"
  "avg_resolution_time (new_metrics a t) = 0"
  by (simp_all add: new_metrics_def)

lemma calculateAnalystMetrics_entry:
  assumes "e \<in> set (calculateAnalystMetrics ts)"
  shows "analyst_id e \<noteq> []"
    and "analystTickets ts (analyst_id e) \<noteq> []"
    and "e = with_compliance ts
               (fold update_existing (analystTickets ts (analyst_id e))
                  (new_metrics (analyst_id e) (hd (analystTickets ts (analyst_id e)))))"
proof -
  from assms obtain k v where kv: "(k, v) \<in> set (build_metricsMap ts)"
    and e: "e = with_compliance ts v"
    by (auto simp add: calculateAnalystMetrics_def)
  note ent = build_metricsMap_entry [OF kv]
  have id: "analyst_id e = k"
    by (simp add: e with_compliance_fields ent(3) fold_update_existing_fields new_metrics_fields)
  show "analyst_id e \<noteq> []" using ent(1) id by simp
  show "analystTickets ts (analyst_id e) \<noteq> []" using ent(2) id by simp
  show "e = with_compliance ts
               (fold update_existing (analystTickets ts (analyst_id e))
                  (new_metrics (analyst_id e) (hd (analystTickets ts (analyst_id e)))))"
    using ent(3) e id by simp
qed

lemma calculateAnalystMetrics_counts:
  assumes "e \<in> set (calculateAnalystMetrics ts)"
  shows "total_tickets e = length (analystTickets ts (analyst_id e))"
    and "resolved_tickets e =
           length (filter (\<lambda>t. closed_at t \<noteq> None) (analystTickets ts (analyst_id e)))"
    and "avg_response_time e = mean_by_position 0 1 (analystTickets ts (analyst_id e))"
    and "avg_resolution_time e = mean_by_resolved_count 0 0 (analystTickets ts (analyst_id e))"
proof -
  let ?g = "analystTickets ts (analyst_id e)"
  let ?v = "fold update_existing ?g (new_metrics (analyst_id e) (hd ?g))"
  have e: "e = with_compliance ts ?v"
    by (rule calculateAnalystMetrics_entry(3) [OF assms])
  have "total_tickets e = total_tickets ?v"
    by (subst e) (simp only: with_compliance_fields)
  then show "total_tickets e = length ?g"
    by (simp add: fold_update_existing_fields new_metrics_fields)
  have "resolved_tickets e = resolved_tickets ?v"
    by (subst e) (simp only: with_compliance_fields)
  then show "resolved_tickets e = length (filter (\<lambda>t. closed_at t \<noteq> None) ?g)"
    by (simp add: fold_update_existing_fields new_metrics_fields)
  have "avg_response_time e = avg_response_time ?v"
    by (subst e) (simp only: with_compliance_fields)
  then show "avg_response_time e = mean_by_position 0 1 ?g"
    by (simp add: fold_update_existing_avg_response new_metrics_fields)
  have "avg_resolution_time e = avg_resolution_time ?v"
    by (subst e) (simp only: with_compliance_fields)
  then show "avg_resolution_time e = mean_by_resolved_count 0 0 ?g"
    by (simp add: fold_update_existing_avg_resolution new_metrics_fields)
qed

lemma calculateAnalystMetrics_ids:
  "map analyst_id (calculateAnalystMetrics ts) = map fst (build_metricsMap ts)"
proof -
  have "analyst_id (with_compliance ts (snd p)) = fst p" if "p \<in> set (build_metricsMap ts)" for p
  proof -
    obtain k v where p: "p = (k, v)" by (cases p)
    from build_metricsMap_entry(3) [of k v ts] that p
    show ?thesis
      by (simp add: with_compliance_fields fold_update_existing_fields new_metrics_fields)
  qed
  then show ?thesis
    by (simp add: calculateAnalystMetrics_def)
qed

lemma calculateAnalystMetrics_distinct:
  "distinct (map analyst_id (calculateAnalystMetrics ts))"
  by (simp add: calculateAnalystMetrics_ids build_metricsMap_def fold_forEach_body_distinct)


lemma compliance_bounds:
  "n \<le> d \<Longrightarrow> 0 \<le> compliance n d \<and> compliance n d \<le> 100"
  by (simp add: compliance_def divide_le_eq)

lemma compliance_filter_bounds:
  "0 \<le> compliance (length (filter P xs)) (length xs)
   \<and> compliance (length (filter P xs)) (length xs) \<le> 100"
  by (rule compliance_bounds) (rule length_filter_le)

lemma quirk_eval:
  "calculateAnalystMetrics quirk_tickets =
     [\<lparr> analyst_id = ''X'', analyst_name = ''Desconhecido'', total_tickets = 2,
        avg_response_time = 30, avg_resolution_time = 120, resolved_tickets = 1,
        sla_response_compliance = 100, sla_resolution_compliance = 100 \<rparr>]"
  by (simp add: calculateAnalystMetrics_def build_metricsMap_def quirk_tickets_def
      unanswered_ticket_def answered_ticket_def mk_ticket_def
      forEach_body_def update_existing_def new_metrics_def or_string_def with_compliance_def
      analystTickets_def compliance_def isWithinSla_def truthy_sla_def getSlaTarget_def
      SLA_TARGETS_def or_value_def get_property_def js_le_def medium_target_def
      differenceInMinutes_def Let_def)

lemma slaStats_response:
  "responseCompliance (slaStats A) =
     compliance
       (length (filter (\<lambda>t. truthy_sla (isWithinSla t response))
                  (filter (\<lambda>t. first_response_at t \<noteq> None) A)))
       (length (filter (\<lambda>t. first_response_at t \<noteq> None) A))"
  by (simp add: slaStats_def Let_def)

lemma slaStats_resolution:
  "resolutionCompliance (slaStats A) =
     compliance
       (length (filter (\<lambda>t. truthy_sla (isWithinSla t resolution))
                  (filter (\<lambda>t. closed_at t \<noteq> None) A)))
       (length (filter (\<lambda>t. closed_at t \<noteq> None) A))"
  by (simp add: slaStats_def Let_def)

lemma assignedTickets_append:
  "assignedTickets role sel pid (xs @ ys) =
     assignedTickets role sel pid xs @ assignedTickets role sel pid ys"
  by (simp add: assignedTickets_def)

lemma assignedTickets_single:
  "assignedTickets role sel pid [t] = [] \<or> assignedTickets role sel pid [t] = [t]"
  by (simp add: assignedTickets_def)

lemma isWithinSla_response_None:
  "first_response_at t = None \<Longrightarrow> isWithinSla t response = None"
  by (simp add: isWithinSla_def)

lemma isWithinSla_resolution_None:
  "closed_at t = None \<Longrightarrow> isWithinSla t resolution = None"
  by (simp add: isWithinSla_def)

lemma foldl_response_none:
  "(\<forall>t \<in> set A. first_response_at t = None) \<Longrightarrow>
   foldl (\<lambda>acc t. case first_response_at t of
                    Some fr \<Rightarrow> acc + differenceInMinutes fr (created_at t)
                  | None \<Rightarrow> acc) z A = z"
  by (induction A arbitrary: z) simp_all

lemma foldl_resolution_none:
  "(\<forall>t \<in> set A. closed_at t = None) \<Longrightarrow>
   foldl (\<lambda>acc t. case closed_at t of
                    Some cl \<Rightarrow> acc + differenceInMinutes cl (created_at t)
                  | None \<Rightarrow> acc) z A = z"
  by (induction A arbitrary: z) simp_all

lemma mean_by_position_none:
  "(\<forall>t \<in> set g. first_response_at t = None) \<Longrightarrow> mean_by_position m n g = m"
  by (induction g arbitrary: n) simp_all

lemma mean_by_resolved_count_none:
  "(\<forall>t \<in> set g. closed_at t = None) \<Longrightarrow> mean_by_resolved_count m k g = m"
  by (induction g) simp_all

lemma analystTickets_subset: "set (analystTickets ts a) \<subseteq> set ts"
  by (auto simp add: analystTickets_def)

lemma unanswered_eval:
  "calculateAnalystMetrics [unanswered_ticket] =
     [\<lparr> analyst_id = ''X'', analyst_name = ''Desconhecido'', total_tickets = 1,
        avg_response_time = 0, avg_resolution_time = 0, resolved_tickets = 0,
        sla_response_compliance = 0, sla_resolution_compliance = 0 \<rparr>]"
  by (simp add: calculateAnalystMetrics_def build_metricsMap_def unanswered_ticket_def
      mk_ticket_def forEach_body_def update_existing_def new_metrics_def or_string_def
      with_compliance_def analystTickets_def compliance_def Let_def)

lemma assignedTickets_admin:
  "\<forall>t \<in> set ts. assigned_to t \<noteq> Some [] \<Longrightarrow>
   assignedTickets Admin sel pid ts = admin_ticket_set sel ts"
  unfolding assignedTickets_def admin_ticket_set_def
  by (rule filter_cong) (auto split: option.splits)

lemma overallStats_total: "totalTickets (overallStats X) = length X"
  by (simp add: overallStats_def)

lemma filteredTickets_subset: "set (filteredTickets s e ts) \<subseteq> set ts"
  by (auto simp add: filteredTickets_def Let_def)

lemma tickets_after_fetch:
  "tickets (fetchTicketsWithMetrics s e (Some all) st) = filteredTickets s e all"
  by (simp add: fetchTicketsWithMetrics_def Let_def)



lemma or_one_pos: "or_one n \<noteq> 0"
  by (simp add: or_one_def)





section \<open>The SLA target table\<close>

text \<open>
  Claim C1. The claim: for a ticket of priority \<^verbatim>\<open>critical\<close> the target is 30 minutes for
  the response and 240 for the resolution, so the ticket of scenario B (first response
  after 60 minutes) is outside its response SLA. The table of Analytics.tsx has no key
  \<^verbatim>\<open>critical\<close>: the lookup is \<^verbatim>\<open>undefined\<close> and the targets are those of
  \<^verbatim>\<open>medium\<close>, 240 and 1440, so the same ticket is reported within its SLA. The table
  of NewTicket.tsx does give \<^verbatim>\<open>critical\<close> 30 and 240.
\<close>

theorem critical_target_is_medium_fallback:
  "getSlaTarget (Some ''critical'') response = JsNumber 240
   \<and> getSlaTarget (Some ''critical'') resolution = JsNumber 1440
   \<and> map_of (SLA_TARGETS_NewTicket response) ''critical'' = Some 30
   \<and> map_of (SLA_TARGETS_NewTicket resolution) ''critical'' = Some 240
   \<and> priority scenario_B = Some ''critical''
   \<and> first_response_at scenario_B = Some 1704070800000
   \<and> differenceInMinutes 1704070800000 (created_at scenario_B) = 60
   \<and> isWithinSla scenario_B response = Some True"
  by (simp add: getSlaTarget_def or_string_def or_value_def get_property_def js_le_def
      Object_prototype_keys_def SLA_TARGETS_def medium_target_def SLA_TARGETS_NewTicket_def
      scenario_B_def mk_ticket_def differenceInMinutes_def isWithinSla_def)




section \<open>The date window\<close>

text \<open>
  Claim C6. \<open>filteredTickets\<close> keeps exactly the tickets whose \<open>created_at\<close> lies
  between the start date normalised to 00:00:00.000 UTC of its day and the end date
  normalised to 23:59:59.999 UTC of its day, both ends included. The normalised start is
  a whole number of days, at most one day before the given instant; the normalised end
  is the last millisecond of the day of the given instant. When the window is not empty,
  a ticket created exactly at either end is kept. The predicate reads no field of the
  ticket other than \<open>created_at\<close>.
\<close>

theorem filteredTickets_inclusive_window:
  "filteredTickets s e ts =
     filter (\<lambda>t. utc_day_start s \<le> created_at t \<and> created_at t \<le> utc_day_end e) ts
   \<and> utc_day_start s mod msPerDay = 0 \<and> utc_day_start s \<le> s \<and> s < utc_day_start s + msPerDay
   \<and> utc_day_end e mod msPerDay = ((23 * 60 + 59) * 60 + 59) * 1000 + 999
   \<and> utc_day_start e \<le> e \<and> e \<le> utc_day_end e
   \<and> (utc_day_start s \<le> utc_day_end e \<longrightarrow> created_at t1 = utc_day_start s \<longrightarrow>
        filteredTickets s e [t1] = [t1])
   \<and> (utc_day_start s \<le> utc_day_end e \<longrightarrow> created_at t2 = utc_day_end e \<longrightarrow>
        filteredTickets s e [t2] = [t2])"
proof -
  have pos: "(0::int) < msPerDay" by (simp add: msPerDay_def)
  have f: "filteredTickets s e xs =
     filter (\<lambda>t. utc_day_start s \<le> created_at t \<and> created_at t \<le> utc_day_end e) xs" for xs
    by (simp add: filteredTickets_def setUTCHours_start setUTCHours_end Let_def)
  have m0: "utc_day_start s mod msPerDay = 0"
    by (simp add: utc_day_start_def minus_mod_eq_div_mult)
  have b1: "utc_day_start s \<le> s" "s < utc_day_start s + msPerDay"
    using pos pos_mod_sign [of msPerDay s] pos_mod_bound [of msPerDay s]
    by (simp_all add: utc_day_start_def)
  have b2: "utc_day_start e \<le> e" "e \<le> utc_day_end e"
    using pos pos_mod_sign [of msPerDay e] pos_mod_bound [of msPerDay e]
    by (simp_all add: utc_day_start_def utc_day_end_def)
  have "utc_day_end e = (e div msPerDay) * msPerDay + 86399999"
    by (simp add: utc_day_start_def utc_day_end_def minus_mod_eq_div_mult msPerDay_def)
  then have m1: "utc_day_end e mod msPerDay = ((23 * 60 + 59) * 60 + 59) * 1000 + 999"
    by (simp add: msPerDay_def)
  show ?thesis
    using m0 b1 b2 m1 by (simp add: f)
qed

theorem filteredTickets_inclusive_window_witness:
  "utc_day_start march_1_start = march_1_start
   \<and> utc_day_end march_1_start = march_1_end
   \<and> utc_day_start march_1_start \<le> utc_day_end march_1_start
   \<and> filteredTickets march_1_start march_1_start
        [mk_ticket ''A'' march_1_start None None None None]
      = [mk_ticket ''A'' march_1_start None None None None]
   \<and> filteredTickets march_1_start march_1_start
        [mk_ticket ''Z'' march_1_end None None None None]
      = [mk_ticket ''Z'' march_1_end None None None None]"
  using filteredTickets_inclusive_window [of march_1_start march_1_start "[]"
      "mk_ticket ''A'' march_1_start None None None None"
      "mk_ticket ''Z'' march_1_end None None None None"]
  by (simp add: utc_day_start_def utc_day_end_def msPerDay_def march_1_start_def
      march_1_end_def mk_ticket_def)

section \<open>Per-analyst rollups\<close>

text \<open>
  Claim C4. For every entry of the per-analyst list, taken over the analyst's own tickets
  in the order of the input: \<open>avg_response_time\<close> is the fold
  \<open>newMean = (oldMean * (n - 1) + sample) / n\<close> started from 0, where \<open>n\<close> is the
  position of the ticket among all tickets of that analyst (it advances on every ticket,
  also on one without a response, and equals \<open>total_tickets\<close> at the end) and the
  mean changes only on a ticket with a first response; \<open>avg_resolution_time\<close> is the
  same fold with the running count of closed tickets, \<open>resolved_tickets\<close>, as
  denominator.
\<close>

theorem running_mean_by_position:
  "e \<in> set (calculateAnalystMetrics ts) \<Longrightarrow>
     total_tickets e = length (analystTickets ts (analyst_id e))
   \<and> avg_response_time e = mean_by_position 0 1 (analystTickets ts (analyst_id e))
   \<and> resolved_tickets e =
       length (filter (\<lambda>t. closed_at t \<noteq> None) (analystTickets ts (analyst_id e)))
   \<and> avg_resolution_time e = mean_by_resolved_count 0 0 (analystTickets ts (analyst_id e))"
  by (simp add: calculateAnalystMetrics_counts)

theorem running_mean_by_position_witness:
  "hd (calculateAnalystMetrics quirk_tickets) \<in> set (calculateAnalystMetrics quirk_tickets)
   \<and> analystTickets quirk_tickets ''X'' = quirk_tickets
   \<and> total_tickets (hd (calculateAnalystMetrics quirk_tickets)) = 2
   \<and> avg_response_time (hd (calculateAnalystMetrics quirk_tickets)) = (0 * (2 - 1) + 60) / 2
   \<and> mean_by_position 0 1 quirk_tickets = 30
   \<and> avg_resolution_time (hd (calculateAnalystMetrics quirk_tickets)) = (0 * (1 - 1) + 120) / 1
   \<and> mean_by_resolved_count 0 0 quirk_tickets = 120"
  using running_mean_by_position [of "hd (calculateAnalystMetrics quirk_tickets)" quirk_tickets]
  by (simp add: quirk_eval)
     (simp add: quirk_tickets_def unanswered_ticket_def answered_ticket_def mk_ticket_def
        analystTickets_def differenceInMinutes_def)

text \<open>
  Claim C10. For every input list, the per-analyst list has no two entries with the same
  \<open>analyst_id\<close>, and every entry has a non-empty \<open>analyst_id\<close>, at least one ticket,
  no more resolved tickets than tickets, and both compliance percentages between 0 and
  100.
\<close>

theorem perAnalyst_invariants:
  "distinct (map analyst_id (calculateAnalystMetrics ts))
   \<and> (\<forall>e \<in> set (calculateAnalystMetrics ts).
        analyst_id e \<noteq> []
        \<and> 1 \<le> total_tickets e
        \<and> 0 \<le> resolved_tickets e \<and> resolved_tickets e \<le> total_tickets e
        \<and> 0 \<le> sla_response_compliance e \<and> sla_response_compliance e \<le> 100
        \<and> 0 \<le> sla_resolution_compliance e \<and> sla_resolution_compliance e \<le> 100)"
proof -
  have "analyst_id e \<noteq> []
        \<and> 1 \<le> total_tickets e
        \<and> 0 \<le> resolved_tickets e \<and> resolved_tickets e \<le> total_tickets e
        \<and> 0 \<le> sla_response_compliance e \<and> sla_response_compliance e \<le> 100
        \<and> 0 \<le> sla_resolution_compliance e \<and> sla_resolution_compliance e \<le> 100"
    if e: "e \<in> set (calculateAnalystMetrics ts)" for e
  proof -
    let ?g = "analystTickets ts (analyst_id e)"
    have ne: "?g \<noteq> []" and id: "analyst_id e \<noteq> []"
      using calculateAnalystMetrics_entry [OF e] by simp_all
    have tot: "total_tickets e = length ?g"
      and res: "resolved_tickets e = length (filter (\<lambda>t. closed_at t \<noteq> None) ?g)"
      using calculateAnalystMetrics_counts [OF e] by simp_all
    have t1: "1 \<le> total_tickets e"
      using ne by (cases ?g) (simp_all add: tot)
    have r1: "resolved_tickets e \<le> total_tickets e"
      by (simp add: tot res)
    obtain v where ev: "e = with_compliance ts v"
      using calculateAnalystMetrics_entry(3) [OF e] by blast
    have c1: "0 \<le> sla_response_compliance e \<and> sla_response_compliance e \<le> 100"
      by (subst (1 2) ev, simp only: with_compliance_response, rule compliance_filter_bounds)
    have c2: "0 \<le> sla_resolution_compliance e \<and> sla_resolution_compliance e \<le> 100"
      by (subst (1 2) ev, simp only: with_compliance_resolution, rule compliance_filter_bounds)
    show ?thesis
      using id t1 r1 c1 c2 by simp
  qed
  then show ?thesis
    using calculateAnalystMetrics_distinct [of ts] by blast
qed

theorem perAnalyst_invariants_witness:
  "hd (calculateAnalystMetrics quirk_tickets) \<in> set (calculateAnalystMetrics quirk_tickets)
   \<and> distinct (map analyst_id (calculateAnalystMetrics quirk_tickets))
   \<and> analyst_id (hd (calculateAnalystMetrics quirk_tickets)) = ''X''
   \<and> total_tickets (hd (calculateAnalystMetrics quirk_tickets)) = 2
   \<and> resolved_tickets (hd (calculateAnalystMetrics quirk_tickets)) = 1
   \<and> sla_response_compliance (hd (calculateAnalystMetrics quirk_tickets)) = 100
   \<and> sla_resolution_compliance (hd (calculateAnalystMetrics quirk_tickets)) = 100"
  using perAnalyst_invariants [of quirk_tickets]
  by (simp add: quirk_eval)

section \<open>Tickets that cannot be judged yet\<close>

text \<open>
  Claim C3. A ticket without a first response has the response verdict \<^verbatim>\<open>null\<close>
  (unknown), and it counts neither in the numerator nor in the denominator of the
  response compliance: taking it out of the ticket list, wherever it stands, leaves the
  overall response compliance of every caller unchanged, and leaves the response
  compliance of every entry of the per-analyst list as it is when recomputed without the
  ticket. The same holds for a ticket that is not closed and the resolution compliance.
\<close>

theorem unknown_excluded_from_compliance:
  "(first_response_at t = None \<longrightarrow>
      isWithinSla t response = None
      \<and> responseCompliance (slaStats (assignedTickets role sel pid (xs @ t # ys)))
          = responseCompliance (slaStats (assignedTickets role sel pid (xs @ ys)))
      \<and> (\<forall>e \<in> set (calculateAnalystMetrics (xs @ t # ys)).
            sla_response_compliance e = sla_response_compliance (with_compliance (xs @ ys) e)))
   \<and> (closed_at t = None \<longrightarrow>
      isWithinSla t resolution = None
      \<and> resolutionCompliance (slaStats (assignedTickets role sel pid (xs @ t # ys)))
          = resolutionCompliance (slaStats (assignedTickets role sel pid (xs @ ys)))
      \<and> (\<forall>e \<in> set (calculateAnalystMetrics (xs @ t # ys)).
            sla_resolution_compliance e = sla_resolution_compliance (with_compliance (xs @ ys) e)))"
proof (intro conjI impI ballI)
  assume n: "first_response_at t = None"
  show "isWithinSla t response = None"
    by (rule isWithinSla_response_None [OF n])
  have s: "filter (\<lambda>u. first_response_at u \<noteq> None) (assignedTickets role sel pid [t]) = []"
    using n assignedTickets_single [of role sel pid t] by auto
  have "filter (\<lambda>u. first_response_at u \<noteq> None) (assignedTickets role sel pid (xs @ t # ys))
      = filter (\<lambda>u. first_response_at u \<noteq> None) (assignedTickets role sel pid (xs @ ys))"
    using s assignedTickets_append [of role sel pid xs "[t] @ ys"]
      assignedTickets_append [of role sel pid "[t]" ys]
      assignedTickets_append [of role sel pid xs ys]
    by simp
  then show "responseCompliance (slaStats (assignedTickets role sel pid (xs @ t # ys)))
          = responseCompliance (slaStats (assignedTickets role sel pid (xs @ ys)))"
    by (simp only: slaStats_response)
  fix e assume "e \<in> set (calculateAnalystMetrics (xs @ t # ys))"
  then obtain v where ev: "e = with_compliance (xs @ t # ys) v"
    using calculateAnalystMetrics_entry(3) by blast
  have f: "filter (\<lambda>u. first_response_at u \<noteq> None) (analystTickets (xs @ t # ys) a)
      = filter (\<lambda>u. first_response_at u \<noteq> None) (analystTickets (xs @ ys) a)" for a
    using n by (simp add: analystTickets_def)
  have "sla_response_compliance (with_compliance (xs @ t # ys) v)
      = sla_response_compliance (with_compliance (xs @ ys) (with_compliance (xs @ t # ys) v))"
    by (simp only: with_compliance_response with_compliance_fields f)
  then show "sla_response_compliance e = sla_response_compliance (with_compliance (xs @ ys) e)"
    by (simp only: ev)
next
  assume n: "closed_at t = None"
  show "isWithinSla t resolution = None"
    by (rule isWithinSla_resolution_None [OF n])
  have s: "filter (\<lambda>u. closed_at u \<noteq> None) (assignedTickets role sel pid [t]) = []"
    using n assignedTickets_single [of role sel pid t] by auto
  have "filter (\<lambda>u. closed_at u \<noteq> None) (assignedTickets role sel pid (xs @ t # ys))
      = filter (\<lambda>u. closed_at u \<noteq> None) (assignedTickets role sel pid (xs @ ys))"
    using s assignedTickets_append [of role sel pid xs "[t] @ ys"]
      assignedTickets_append [of role sel pid "[t]" ys]
      assignedTickets_append [of role sel pid xs ys]
    by simp
  then show "resolutionCompliance (slaStats (assignedTickets role sel pid (xs @ t # ys)))
          = resolutionCompliance (slaStats (assignedTickets role sel pid (xs @ ys)))"
    by (simp only: slaStats_resolution)
  fix e assume "e \<in> set (calculateAnalystMetrics (xs @ t # ys))"
  then obtain v where ev: "e = with_compliance (xs @ t # ys) v"
    using calculateAnalystMetrics_entry(3) by blast
  have f: "filter (\<lambda>u. closed_at u \<noteq> None) (analystTickets (xs @ t # ys) a)
      = filter (\<lambda>u. closed_at u \<noteq> None) (analystTickets (xs @ ys) a)" for a
    using n by (simp add: analystTickets_def)
  have "sla_resolution_compliance (with_compliance (xs @ t # ys) v)
      = sla_resolution_compliance (with_compliance (xs @ ys) (with_compliance (xs @ t # ys) v))"
    by (simp only: with_compliance_resolution with_compliance_fields f)
  then show "sla_resolution_compliance e = sla_resolution_compliance (with_compliance (xs @ ys) e)"
    by (simp only: ev)
qed

theorem unknown_excluded_from_compliance_witness:
  "first_response_at unanswered_ticket = None \<and> closed_at unanswered_ticket = None
   \<and> isWithinSla unanswered_ticket response = None
   \<and> isWithinSla unanswered_ticket resolution = None
   \<and> responseCompliance (slaStats (assignedTickets Admin ''all'' None quirk_tickets))
       = responseCompliance (slaStats (assignedTickets Admin ''all'' None [answered_ticket]))
   \<and> resolutionCompliance (slaStats (assignedTickets Admin ''all'' None quirk_tickets))
       = resolutionCompliance (slaStats (assignedTickets Admin ''all'' None [answered_ticket]))
   \<and> hd (calculateAnalystMetrics quirk_tickets) \<in> set (calculateAnalystMetrics quirk_tickets)
   \<and> sla_response_compliance (hd (calculateAnalystMetrics quirk_tickets))
       = sla_response_compliance
           (with_compliance [answered_ticket] (hd (calculateAnalystMetrics quirk_tickets)))
   \<and> sla_resolution_compliance (hd (calculateAnalystMetrics quirk_tickets))
       = sla_resolution_compliance
           (with_compliance [answered_ticket] (hd (calculateAnalystMetrics quirk_tickets)))"
proof -
  have n: "first_response_at unanswered_ticket = None" "closed_at unanswered_ticket = None"
    by (simp_all add: unanswered_ticket_def mk_ticket_def)
  have m: "hd (calculateAnalystMetrics quirk_tickets) \<in> set (calculateAnalystMetrics quirk_tickets)"
    by (simp add: quirk_eval)
  show ?thesis
    using unknown_excluded_from_compliance
      [of unanswered_ticket Admin "''all''" None "[]" "[answered_ticket]"] n m
    by (simp add: quirk_tickets_def)
qed

section \<open>Empty input and averages without samples\<close>

text \<open>
  Claim C8. When the query returns no ticket, every caller sees the overall statistics
  0, 0, 0, 0, 0 and an empty per-analyst list. For any set of aggregated tickets of
  which none has a first response, the overall average response time is the number 0,
  the quotient \<open>0 / (0 || 1)\<close> with divisor 1, and not the \<^verbatim>\<open>NaN\<close> of \<open>0 / 0\<close>; in
  every per-analyst entry the average response time is 0 as well. Likewise for tickets of
  which none is closed and the average resolution time.
\<close>

theorem averages_zero_without_samples:
  "render role sel pid (fetchTicketsWithMetrics s e (Some []) st) =
     \<lparr> overall = \<lparr> totalTickets = 0, respondedTickets = 0, resolvedTickets = 0,
                   avgResponseTime = Some 0, avgResolutionTime = Some 0 \<rparr>,
       sla = \<lparr> responseCompliance = 0, resolutionCompliance = 0 \<rparr>,
       perAnalyst = [] \<rparr>
   \<and> ((\<forall>t \<in> set A. first_response_at t = None) \<longrightarrow>
        avgResponseTime (overallStats A) = Some 0
        \<and> (\<forall>e \<in> set (calculateAnalystMetrics A). avg_response_time e = 0))
   \<and> ((\<forall>t \<in> set A. closed_at t = None) \<longrightarrow>
        avgResolutionTime (overallStats A) = Some 0
        \<and> (\<forall>e \<in> set (calculateAnalystMetrics A). avg_resolution_time e = 0))"
proof (intro conjI impI ballI)
  show "render role sel pid (fetchTicketsWithMetrics s e (Some []) st) =
     \<lparr> overall = \<lparr> totalTickets = 0, respondedTickets = 0, resolvedTickets = 0,
                   avgResponseTime = Some 0, avgResolutionTime = Some 0 \<rparr>,
       sla = \<lparr> responseCompliance = 0, resolutionCompliance = 0 \<rparr>,
       perAnalyst = [] \<rparr>"
    by (simp add: render_def fetchTicketsWithMetrics_def filteredTickets_def
        calculateAnalystMetrics_def build_metricsMap_def assignedTickets_def overallStats_def
        slaStats_def compliance_def or_one_def js_div_def Let_def)
next
  assume n: "\<forall>t \<in> set A. first_response_at t = None"
  show "avgResponseTime (overallStats A) = Some 0"
    by (simp add: overallStats_def js_div_def or_one_pos foldl_response_none [OF n])
  fix e assume e: "e \<in> set (calculateAnalystMetrics A)"
  have "\<forall>t \<in> set (analystTickets A (analyst_id e)). first_response_at t = None"
    using n analystTickets_subset [of A "analyst_id e"] by blast
  then show "avg_response_time e = 0"
    by (simp add: calculateAnalystMetrics_counts(3) [OF e] mean_by_position_none)
next
  assume n: "\<forall>t \<in> set A. closed_at t = None"
  show "avgResolutionTime (overallStats A) = Some 0"
    by (simp add: overallStats_def js_div_def or_one_pos foldl_resolution_none [OF n])
  fix e assume e: "e \<in> set (calculateAnalystMetrics A)"
  have "\<forall>t \<in> set (analystTickets A (analyst_id e)). closed_at t = None"
    using n analystTickets_subset [of A "analyst_id e"] by blast
  then show "avg_resolution_time e = 0"
    by (simp add: calculateAnalystMetrics_counts(4) [OF e] mean_by_resolved_count_none)
qed

theorem averages_zero_without_samples_witness:
  "first_response_at unanswered_ticket = None \<and> closed_at unanswered_ticket = None
   \<and> totalTickets (overallStats [unanswered_ticket]) = 1
   \<and> avgResponseTime (overallStats [unanswered_ticket]) = Some 0
   \<and> avgResolutionTime (overallStats [unanswered_ticket]) = Some 0
   \<and> hd (calculateAnalystMetrics [unanswered_ticket])
        \<in> set (calculateAnalystMetrics [unanswered_ticket])
   \<and> total_tickets (hd (calculateAnalystMetrics [unanswered_ticket])) = 1
   \<and> avg_response_time (hd (calculateAnalystMetrics [unanswered_ticket])) = 0
   \<and> avg_resolution_time (hd (calculateAnalystMetrics [unanswered_ticket])) = 0"
proof -
  have n: "first_response_at unanswered_ticket = None" "closed_at unanswered_ticket = None"
    by (simp_all add: unanswered_ticket_def mk_ticket_def)
  have t: "totalTickets (overallStats [unanswered_ticket]) = 1"
    by (simp add: overallStats_def)
  show ?thesis
    using averages_zero_without_samples [of Admin "''all''" None 0 0 empty_state
        "[unanswered_ticket]"] n t
    by (simp add: unanswered_eval)
qed

section \<open>Role-based visibility\<close>

text \<open>
  Claim C7. For a caller of role \<^verbatim>\<open>admin\<close>, the tickets the overall statistics and the
  overall compliance are computed from are exactly the tickets of the date window with a
  non-null \<open>assigned_to\<close>, restricted to those of the selected analyst when the filter
  is not \<^verbatim>\<open>all\<close>, and all of them when it is \<^verbatim>\<open>all\<close>. Analyst identities are
  UUIDs: no ticket is assigned to the empty string, which the page would treat as
  unassigned.
\<close>

theorem overall_ticket_set_for_admin:
  assumes "\<forall>t \<in> set all. assigned_to t \<noteq> Some []"
  shows "assignedTickets Admin sel pid (tickets (fetchTicketsWithMetrics s e (Some all) st))
           = admin_ticket_set sel (filteredTickets s e all)
   \<and> overall (render Admin sel pid (fetchTicketsWithMetrics s e (Some all) st))
           = overallStats (admin_ticket_set sel (filteredTickets s e all))
   \<and> sla (render Admin sel pid (fetchTicketsWithMetrics s e (Some all) st))
           = slaStats (admin_ticket_set sel (filteredTickets s e all))
   \<and> totalTickets (overall (render Admin sel pid (fetchTicketsWithMetrics s e (Some all) st)))
           = length (admin_ticket_set sel (filteredTickets s e all))
   \<and> admin_ticket_set ''all'' (filteredTickets s e all)
           = filter (\<lambda>t. assigned_to t \<noteq> None) (filteredTickets s e all)
   \<and> (sel \<noteq> ''all'' \<longrightarrow>
        admin_ticket_set sel (filteredTickets s e all)
           = filter (\<lambda>t. assigned_to t = Some sel) (filteredTickets s e all))"
proof -
  have "\<forall>t \<in> set (filteredTickets s e all). assigned_to t \<noteq> Some []"
    using assms filteredTickets_subset [of s e all] by blast
  then have a: "assignedTickets Admin sel pid (filteredTickets s e all)
      = admin_ticket_set sel (filteredTickets s e all)"
    by (rule assignedTickets_admin)
  have r: "overall (render Admin sel pid (fetchTicketsWithMetrics s e (Some all) st))
           = overallStats (admin_ticket_set sel (filteredTickets s e all))"
    "sla (render Admin sel pid (fetchTicketsWithMetrics s e (Some all) st))
           = slaStats (admin_ticket_set sel (filteredTickets s e all))"
    by (simp_all add: render_def tickets_after_fetch a Let_def)
  note l = overallStats_total
  have f1: "admin_ticket_set ''all'' X = filter (\<lambda>t. assigned_to t \<noteq> None) X" for X
    by (simp add: admin_ticket_set_def)
  have f2: "sel \<noteq> ''all'' \<Longrightarrow>
      admin_ticket_set sel X = filter (\<lambda>t. assigned_to t = Some sel) X" for X
    unfolding admin_ticket_set_def by (rule filter_cong) auto
  show ?thesis
    using f2 by (simp add: r l f1 a tickets_after_fetch)
qed

theorem overall_ticket_set_for_admin_witness:
  "assigned_to answered_ticket \<noteq> Some [] \<and> assigned_to other_analyst_ticket \<noteq> Some []
   \<and> assigned_to unassigned_ticket \<noteq> Some []
   \<and> ''Y'' \<noteq> ''all''
   \<and> admin_ticket_set ''Y'' (filteredTickets jan_1 jan_1
         [answered_ticket, other_analyst_ticket, unassigned_ticket]) = [other_analyst_ticket]
   \<and> totalTickets (overall (render Admin ''Y'' None
         (fetchTicketsWithMetrics jan_1 jan_1
            (Some [answered_ticket, other_analyst_ticket, unassigned_ticket]) empty_state))) = 1
   \<and> admin_ticket_set ''all'' (filteredTickets jan_1 jan_1
         [answered_ticket, other_analyst_ticket, unassigned_ticket])
       = [answered_ticket, other_analyst_ticket]"
proof -
  have h: "\<forall>t \<in> set [answered_ticket, other_analyst_ticket, unassigned_ticket].
             assigned_to t \<noteq> Some []"
    by (simp add: answered_ticket_def other_analyst_ticket_def unassigned_ticket_def
        mk_ticket_def)
  have f: "filteredTickets jan_1 jan_1 [answered_ticket, other_analyst_ticket, unassigned_ticket]
      = [answered_ticket, other_analyst_ticket, unassigned_ticket]"
    by (simp add: filteredTickets_def setUTCHours_def msPerDay_def jan_1_def
        answered_ticket_def other_analyst_ticket_def unassigned_ticket_def mk_ticket_def)
  have a: "assigned_to answered_ticket = Some ''X''"
    "assigned_to other_analyst_ticket = Some ''Y''"
    "assigned_to unassigned_ticket = None"
    by (simp_all add: answered_ticket_def other_analyst_ticket_def unassigned_ticket_def
        mk_ticket_def)
  show ?thesis
    using overall_ticket_set_for_admin [OF h, of "''Y''" None jan_1 jan_1 empty_state] h
    by (simp add: f a overallStats_total)
qed

text \<open>
  Claim C2. The claim: a caller of role \<^verbatim>\<open>analyst\<close> gets per-analyst metrics computed
  only from the tickets assigned to the caller. The page restricts the overall statistics
  of such a caller to the caller's own tickets, but it draws the per-analyst cards from
  \<open>analystMetrics\<close>, which \<open>fetchTicketsWithMetrics\<close> computes from every assigned
  ticket of the date window without reading the role. With one ticket of \<open>X\<close> and one
  of \<open>Y\<close>, the caller \<open>X\<close> of role \<^verbatim>\<open>analyst\<close> is shown an entry for \<open>Y\<close>.
\<close>

theorem analyst_sees_other_analysts_metrics:
  "map analyst_id
     (perAnalyst (render Analyst ''all'' (Some ''X'')
        (fetchTicketsWithMetrics jan_1 jan_1
           (Some [answered_ticket, other_analyst_ticket]) empty_state)))
     = [''X'', ''Y'']
   \<and> map total_tickets
     (perAnalyst (render Analyst ''all'' (Some ''X'')
        (fetchTicketsWithMetrics jan_1 jan_1
           (Some [answered_ticket, other_analyst_ticket]) empty_state)))
     = [1, 1]
   \<and> assigned_to other_analyst_ticket = Some ''Y''
   \<and> assignedTickets Analyst ''all'' (Some ''X'')
        (tickets (fetchTicketsWithMetrics jan_1 jan_1
           (Some [answered_ticket, other_analyst_ticket]) empty_state))
     = [answered_ticket]
   \<and> totalTickets (overall (render Analyst ''all'' (Some ''X'')
        (fetchTicketsWithMetrics jan_1 jan_1
           (Some [answered_ticket, other_analyst_ticket]) empty_state))) = 1"
  by (simp add: render_def fetchTicketsWithMetrics_def filteredTickets_def setUTCHours_def
      msPerDay_def jan_1_def answered_ticket_def other_analyst_ticket_def mk_ticket_def
      calculateAnalystMetrics_def build_metricsMap_def forEach_body_def update_existing_def
      new_metrics_def or_string_def with_compliance_def analystTickets_def
      assignedTickets_def overallStats_def Let_def)

section \<open>Timestamps out of order\<close>



end
